theory Spec2Isabelle
  imports Main "HOL-Library.Word"
begin

unbundle bit_operations_syntax

section \<open>Data model of CFileSystemObject\<close>

text \<open>
  A \<open>QString\<close> is a list of characters and a \<open>QByteArray\<close> a list of bytes.
  \<open>uint64_t\<close>, \<open>qulonglong\<close>, \<open>qint64\<close> and \<open>time_t\<close> are 64-bit words, the
  \<open>uint\<close> of \<open>QDateTime::toTime_t\<close>, the \<open>int\<close> of \<open>PathGetDriveNumberW\<close> and the
  \<open>DWORD\<close> of the Win32 attribute calls are 32-bit words.
\<close>

type_synonym QString = string
type_synonym QByteArray = "8 word list"
type_synonym uint64_t = "64 word"
type_synonym int64_t = "64 word"
type_synonym time_t = "64 word"
type_synonym DWORD = "32 word"

datatype FileOperationResultCode = rcOk | rcFail | rcObjectDoesntExist | rcTargetAlreadyExists

text \<open>
  Modelled from the spec: the declaration of the enum \<open>FileSystemObjectType\<close>
  (cfilesystemobject.h) is not among the sources. The code names \<open>File\<close> and \<open>Directory\<close>;
  the specification gives the variant as File, Directory, Other, Nonexistent.
\<close>

datatype FileSystemObjectType = File | Directory | Other | Nonexistent

text \<open>
  The answers of the object's \<open>QFileInfo\<close> member. \<open>QFileInfo\<close> caches what it has read of
  the file and the class never calls \<open>QFileInfo::refresh\<close>, so the member is a snapshot: one
  field for each query that cfilesystemobject.cpp makes of it.
\<close>

record QFileInfo =
  fi_exists :: bool
  fi_absoluteFilePath :: QString
  fi_isFile :: bool
  fi_isDir :: bool
  fi_suffix :: QString
  fi_completeBaseName :: QString
  fi_completeSuffix :: QString
  fi_baseName :: QString
  fi_fileName :: QString
  fi_absolutePath :: QString
  fi_created_toTime_t :: "32 word"
  fi_lastModified_toTime_t :: "32 word"
  fi_size :: int64_t

text \<open>The struct \<open>CFileSystemObjectProperties\<close>, with the fields that the code assigns.\<close>

record CFileSystemObjectProperties =
  p_completeBaseName :: QString
  p_extension :: QString
  p_fullName :: QString
  p_parentFolder :: QString
  p_fullPath :: QString
  p_type :: FileSystemObjectType
  p_size :: uint64_t
  p_creationDate :: time_t
  p_modificationDate :: time_t
  p_hash :: "64 word"
  p_exists :: bool

text \<open>
  A \<open>QFile\<close> object as the class uses it: its file name, whether it is open, the read or
  write position, and its error state: \<open>None\<close> is \<open>QFile::NoError\<close>, \<open>Some s\<close> an error
  whose description is \<open>s\<close>.
\<close>

record QFile =
  qf_fileName :: QString
  qf_isOpen :: bool
  qf_pos :: "64 word"
  qf_error :: "QString option"

text \<open>
  The members of \<open>CFileSystemObject\<close>. The two \<open>shared_ptr\<close> members are
  options: \<open>None\<close> is the empty pointer.
\<close>

record CFileSystemObject =
  m_fileInfo :: QFileInfo
  m_properties :: CFileSystemObjectProperties
  m_lastError :: QString
  m_rootFileSystemId :: uint64_t
  m_thisFile :: "QFile option"
  m_destFile :: "QFile option"

text \<open>
  The build: the platform the preprocessor selects (\<open>_WIN32\<close> or not) and whether
  \<open>assert\<close> and \<open>Q_ASSERT\<close> are compiled in (a debug build) or expand to nothing.
\<close>

datatype platform = Win32 | Posix

record build =
  target :: platform
  asserts :: bool

text \<open>
  What a call does instead of returning: a failed assertion aborts the process, an empty
  \<open>shared_ptr\<close> that is dereferenced is undefined behaviour, and a branch closed by
  \<open>#error\<close> does not build.
\<close>

datatype fault = AssertionFailed | NullDereference | NotImplemented

section \<open>The environment: Qt, the operating system and the helper headers\<close>

text \<open>
  Everything the class calls outside cfilesystemobject.cpp is a field of the environment,
  over an arbitrary type \<open>'w\<close> of states of the file system. The theorems hold for every
  environment, or state what they assume of it.
\<close>

datatype OpenMode = ReadOnly | WriteOnly

record 'w env =
  fasthash64 :: "QByteArray \<Rightarrow> nat \<Rightarrow> 64 word \<Rightarrow> 64 word"
  toUtf8 :: "QString \<Rightarrow> QByteArray"
  toNativeSeparators :: "QString \<Rightarrow> QString"
  qfi_path :: "QString \<Rightarrow> QString"
  qfi_exists :: "'w \<Rightarrow> QString \<Rightarrow> bool"
  qfi_isFile :: "'w \<Rightarrow> QString \<Rightarrow> bool"
  qfi_isDir :: "'w \<Rightarrow> QString \<Rightarrow> bool"
  qdir_entryList :: "'w \<Rightarrow> QString \<Rightarrow> QString list"
  os_open :: "'w \<Rightarrow> OpenMode \<Rightarrow> QString \<Rightarrow> QString + 'w"
  os_read :: "'w \<Rightarrow> QString \<Rightarrow> 64 word \<Rightarrow> int64_t \<Rightarrow> QString + QByteArray"
  os_write :: "'w \<Rightarrow> QString \<Rightarrow> 64 word \<Rightarrow> QByteArray \<Rightarrow> QString option \<times> int \<times> 'w"
  os_close :: "'w \<Rightarrow> QString \<Rightarrow> 'w"
  os_remove :: "'w \<Rightarrow> QString \<Rightarrow> bool \<times> 'w"
  os_rename :: "'w \<Rightarrow> QString \<Rightarrow> QString \<Rightarrow> QString option \<times> 'w"
  qdir_rename :: "'w \<Rightarrow> QString \<Rightarrow> QString \<Rightarrow> bool \<times> 'w"
  os_stat_dev :: "'w \<Rightarrow> QByteArray \<Rightarrow> QString + uint64_t"
  PathGetDriveNumberW :: "'w \<Rightarrow> QString \<Rightarrow> 32 word"
  GetFileAttributesW :: "'w \<Rightarrow> QString \<Rightarrow> DWORD"
  SetFileAttributesW :: "'w \<Rightarrow> QString \<Rightarrow> DWORD \<Rightarrow> bool \<times> 'w"
  ErrorStringFromLastError :: "'w \<Rightarrow> QString"
  noErrorString :: QString

section \<open>Refreshing and querying the object\<close>

text \<open>
  \<open>refreshInfo\<close>: the type is assigned in three of the four branches of the first chain and
  keeps its value in the fourth; the dates and the size are assigned only when the object
  exists.
\<close>

definition refreshInfo :: "'w env \<Rightarrow> CFileSystemObject \<Rightarrow> CFileSystemObject" where
  "refreshInfo E obj =
    (let fi = m_fileInfo obj;
         p0 = m_properties obj;
         p1 = p0\<lparr>p_exists := fi_exists fi, p_fullPath := fi_absoluteFilePath fi\<rparr>;
         utf8Path = toUtf8 E (p_fullPath p1);
         p2 = p1\<lparr>p_hash := fasthash64 E utf8Path (length utf8Path) 0\<rparr>;
         p3 = (if fi_isFile fi then p2\<lparr>p_type := File\<rparr>
               else if fi_isDir fi then p2\<lparr>p_type := Directory\<rparr>
               else if p_exists p2 then p2
               else if p_fullPath p2 \<noteq> [] \<and> last (p_fullPath p2) = CHR ''/'' then p2\<lparr>p_type := Directory\<rparr>
               else p2);
         p4 = (if p_type p3 = File
               then p3\<lparr>p_extension := fi_suffix fi, p_completeBaseName := fi_completeBaseName fi\<rparr>
               else if p_type p3 = Directory
               then (let suffix = fi_completeSuffix fi;
                         q = p3\<lparr>p_completeBaseName := fi_baseName fi\<rparr>
                     in if suffix \<noteq> []
                        then q\<lparr>p_completeBaseName := p_completeBaseName q @ ''.'' @ suffix\<rparr>
                        else q)
               else p3);
         p5 = p4\<lparr>p_fullName := (if p_type p4 = Directory then p_completeBaseName p4 else fi_fileName fi),
                 p_parentFolder := fi_absolutePath fi\<rparr>
     in if \<not> p_exists p5 then obj\<lparr>m_properties := p5\<rparr>
        else obj\<lparr>m_properties := p5\<lparr>
               p_creationDate := ucast (fi_created_toTime_t fi),
               p_modificationDate := ucast (fi_lastModified_toTime_t fi),
               p_size := (if p_type p5 = File then fi_size fi else 0)\<rparr>\<rparr>)"

definition hash :: "CFileSystemObject \<Rightarrow> 64 word" where
  "hash obj = p_hash (m_properties obj)"

text \<open>\<open>operator==\<close>\<close>

definition operator_eq :: "CFileSystemObject \<Rightarrow> CFileSystemObject \<Rightarrow> bool" where
  "operator_eq this other = (hash this = hash other)"

definition exists :: "CFileSystemObject \<Rightarrow> bool" where
  "exists obj = p_exists (m_properties obj)"

definition isFile :: "CFileSystemObject \<Rightarrow> bool" where
  "isFile obj = (p_type (m_properties obj) = File)"

definition isDir :: "CFileSystemObject \<Rightarrow> bool" where
  "isDir obj = (p_type (m_properties obj) = Directory)"

definition fullAbsolutePath :: "CFileSystemObject \<Rightarrow> QString" where
  "fullAbsolutePath obj = p_fullPath (m_properties obj)"

text \<open>
  \<open>isEmptyDir\<close>: the listing is \<open>QDir(path).entryList(NoDotAndDotDot | Hidden | System)\<close>,
  asked only of a directory.
\<close>

definition isEmptyDir :: "'w env \<Rightarrow> CFileSystemObject \<Rightarrow> 'w \<Rightarrow> bool" where
  "isEmptyDir E obj w =
    (if isDir obj then qdir_entryList E w (fullAbsolutePath obj) = [] else False)"

definition isCdUp :: "CFileSystemObject \<Rightarrow> bool" where
  "isCdUp obj = (p_fullName (m_properties obj) = ''..'')"

text \<open>\<open>setDirSize\<close> assigns one field and calls nothing.\<close>

definition setDirSize :: "uint64_t \<Rightarrow> CFileSystemObject \<Rightarrow> CFileSystemObject" where
  "setDirSize n obj = obj\<lparr>m_properties := (m_properties obj)\<lparr>p_size := n\<rparr>\<rparr>"


section \<open>QFile and shared_ptr\<close>

text \<open>
  The \<open>QFile\<close> calls of the class: each changes the \<open>QFile\<close> object as Qt documents it
  (open flag, position, error) and leaves to the environment whether the call succeeds,
  what it reads or writes, and what becomes of the file system.
\<close>

definition new_QFile :: "QString \<Rightarrow> QFile" where
  "new_QFile name = \<lparr>qf_fileName = name, qf_isOpen = False, qf_pos = 0, qf_error = None\<rparr>"

definition errorString :: "'w env \<Rightarrow> QFile \<Rightarrow> QString" where
  "errorString E f = (case qf_error f of None \<Rightarrow> noErrorString E | Some s \<Rightarrow> s)"

definition QFile_open :: "'w env \<Rightarrow> OpenMode \<Rightarrow> QFile \<Rightarrow> 'w \<Rightarrow> bool \<times> QFile \<times> 'w" where
  "QFile_open E mode f w =
    (case os_open E w mode (qf_fileName f) of
       Inl err \<Rightarrow> (False, f\<lparr>qf_error := Some err\<rparr>, w)
     | Inr w' \<Rightarrow> (True, f\<lparr>qf_isOpen := True, qf_pos := 0\<rparr>, w'))"

definition QFile_read :: "'w env \<Rightarrow> int64_t \<Rightarrow> QFile \<Rightarrow> 'w \<Rightarrow> QByteArray \<times> QFile" where
  "QFile_read E maxSize f w =
    (case os_read E w (qf_fileName f) (qf_pos f) maxSize of
       Inl err \<Rightarrow> ([], f\<lparr>qf_error := Some err\<rparr>)
     | Inr data \<Rightarrow> (data, f\<lparr>qf_pos := qf_pos f + of_nat (length data)\<rparr>))"

definition QFile_write :: "'w env \<Rightarrow> QFile \<Rightarrow> QByteArray \<Rightarrow> 'w \<Rightarrow> int \<times> QFile \<times> 'w" where
  "QFile_write E f data w =
    (case os_write E w (qf_fileName f) (qf_pos f) data of
       (err, n, w') \<Rightarrow>
         (n,
          f\<lparr>qf_pos := qf_pos f + (if 0 \<le> n then of_int n else 0),
            qf_error := (case err of None \<Rightarrow> qf_error f | Some e \<Rightarrow> Some e)\<rparr>,
          w'))"

definition QFile_close :: "'w env \<Rightarrow> QFile \<Rightarrow> 'w \<Rightarrow> QFile \<times> 'w" where
  "QFile_close E f w =
    (if qf_isOpen f then (f\<lparr>qf_isOpen := False\<rparr>, os_close E w (qf_fileName f)) else (f, w))"

definition QFile_remove :: "'w env \<Rightarrow> QFile \<Rightarrow> 'w \<Rightarrow> bool \<times> QFile \<times> 'w" where
  "QFile_remove E f w =
    (case QFile_close E f w of
       (f1, w1) \<Rightarrow> (case os_remove E w1 (qf_fileName f1) of (ok, w2) \<Rightarrow> (ok, f1, w2)))"

text \<open>
  \<open>shared_ptr::reset\<close> on the only owner destroys the \<open>QFile\<close>, whose destructor closes
  a file that is still open.
\<close>

definition reset :: "'w env \<Rightarrow> QFile option \<Rightarrow> 'w \<Rightarrow> 'w" where
  "reset E h w = (case h of None \<Rightarrow> w | Some f \<Rightarrow> snd (QFile_close E f w))"

section \<open>The chunked copy\<close>

definition copyOperationInProgress :: "build \<Rightarrow> CFileSystemObject \<Rightarrow> fault + bool" where
  "copyOperationInProgress B obj =
    (if m_destFile obj = None \<and> m_thisFile obj = None then Inr False
     else case (m_destFile obj, m_thisFile obj) of
            (Some df, Some tf) \<Rightarrow>
              if asserts B \<and> qf_isOpen df \<noteq> qf_isOpen tf then Inl AssertionFailed
              else Inr (qf_isOpen df \<and> qf_isOpen tf)
          | _ \<Rightarrow> Inl NullDereference)"

text \<open>
  Lines 292 to 314 of \<open>copyChunk\<close>: creating and opening the two files. The boolean is
  false where the code returns \<open>rcFail\<close>.
\<close>

definition copyChunk_open ::
  "'w env \<Rightarrow> QString \<Rightarrow> QString \<Rightarrow> CFileSystemObject \<Rightarrow> 'w \<Rightarrow> bool \<times> CFileSystemObject \<times> 'w" where
  "copyChunk_open E destFolder newName obj w =
    (let w0 = reset E (m_destFile obj) (reset E (m_thisFile obj) w);
         thisFile = new_QFile (fullAbsolutePath obj);
         destFile = new_QFile (destFolder @ (if newName = [] then p_fullName (m_properties obj) else newName))
     in case QFile_open E ReadOnly thisFile w0 of
          (False, thisFile', w1) \<Rightarrow>
            (False,
             obj\<lparr>m_lastError := errorString E thisFile', m_thisFile := None, m_destFile := None\<rparr>,
             reset E (Some destFile) (reset E (Some thisFile') w1))
        | (True, thisFile', w1) \<Rightarrow>
            (case QFile_open E WriteOnly destFile w1 of
               (False, destFile', w2) \<Rightarrow>
                 (False,
                  obj\<lparr>m_lastError := errorString E destFile', m_thisFile := None, m_destFile := None\<rparr>,
                  reset E (Some destFile') (reset E (Some thisFile') w2))
             | (True, destFile', w2) \<Rightarrow>
                 (True, obj\<lparr>m_thisFile := Some thisFile', m_destFile := Some destFile'\<rparr>, w2)))"

text \<open>Lines 317 to 337 of \<open>copyChunk\<close>: reading one chunk and writing it.\<close>

definition copyChunk_transfer ::
  "'w env \<Rightarrow> build \<Rightarrow> int64_t \<Rightarrow> CFileSystemObject \<Rightarrow> 'w
    \<Rightarrow> fault + (FileOperationResultCode \<times> CFileSystemObject \<times> 'w)" where
  "copyChunk_transfer E B chunkSize obj w =
    (case (m_thisFile obj, m_destFile obj) of
       (Some thisFile, Some destFile) \<Rightarrow>
         if asserts B \<and> qf_isOpen destFile \<noteq> qf_isOpen thisFile then Inl AssertionFailed
         else (case QFile_read E chunkSize thisFile w of
                 (data, thisFile') \<Rightarrow>
                   if data = []
                   then Inr (rcOk,
                             obj\<lparr>m_thisFile := None, m_destFile := None\<rparr>,
                             reset E (Some destFile) (reset E (Some thisFile') w))
                   else (case QFile_write E destFile data w of
                           (n, destFile', w') \<Rightarrow>
                             if n = int (length data)
                             then Inr (rcOk,
                                       obj\<lparr>m_thisFile := Some thisFile', m_destFile := Some destFile'\<rparr>,
                                       w')
                             else Inr (rcFail,
                                       obj\<lparr>m_lastError :=
                                             (if qf_error thisFile' \<noteq> None then errorString E thisFile'
                                              else errorString E destFile'),
                                           m_thisFile := Some thisFile', m_destFile := Some destFile'\<rparr>,
                                       w')))
     | _ \<Rightarrow> Inl NullDereference)"

definition copyChunk ::
  "'w env \<Rightarrow> build \<Rightarrow> int64_t \<Rightarrow> QString \<Rightarrow> QString \<Rightarrow> CFileSystemObject \<Rightarrow> 'w
    \<Rightarrow> fault + (FileOperationResultCode \<times> CFileSystemObject \<times> 'w)" where
  "copyChunk E B chunkSize destFolder newName obj w =
    (if asserts B \<and> ((m_thisFile obj \<noteq> None) \<noteq> (m_destFile obj \<noteq> None)) then Inl AssertionFailed
     else if asserts B \<and> \<not> isFile obj then Inl AssertionFailed
     else if asserts B \<and> \<not> qfi_isDir E w destFolder then Inl AssertionFailed
     else case copyOperationInProgress B obj of
            Inl f \<Rightarrow> Inl f
          | Inr True \<Rightarrow> copyChunk_transfer E B chunkSize obj w
          | Inr False \<Rightarrow>
              (case copyChunk_open E destFolder newName obj w of
                 (False, obj', w') \<Rightarrow> Inr (rcFail, obj', w')
               | (True, obj', w') \<Rightarrow> copyChunk_transfer E B chunkSize obj' w'))"

definition cancelCopy ::
  "'w env \<Rightarrow> build \<Rightarrow> CFileSystemObject \<Rightarrow> 'w
    \<Rightarrow> fault + (FileOperationResultCode \<times> CFileSystemObject \<times> 'w)" where
  "cancelCopy E B obj w =
    (case copyOperationInProgress B obj of
       Inl f \<Rightarrow> Inl f
     | Inr False \<Rightarrow> Inr (rcOk, obj, w)
     | Inr True \<Rightarrow>
         (case (m_thisFile obj, m_destFile obj) of
            (Some thisFile, Some destFile) \<Rightarrow>
              (case QFile_close E thisFile w of
                 (thisFile1, w1) \<Rightarrow>
                   (case QFile_close E destFile w1 of
                      (destFile1, w2) \<Rightarrow>
                        (case QFile_remove E destFile1 w2 of
                           (succ, destFile2, w3) \<Rightarrow>
                             Inr (if succ then rcOk else rcFail,
                                  obj\<lparr>m_thisFile := None, m_destFile := None\<rparr>,
                                  reset E (Some destFile2) (reset E (Some thisFile1) w3)))))
          | _ \<Rightarrow> Inl NullDereference))"

section \<open>Moving\<close>

definition moveAtomically ::
  "'w env \<Rightarrow> build \<Rightarrow> QString \<Rightarrow> QString \<Rightarrow> CFileSystemObject \<Rightarrow> 'w
    \<Rightarrow> fault + (FileOperationResultCode \<times> CFileSystemObject \<times> 'w)" where
  "moveAtomically E B location newName obj w =
    (if \<not> exists obj then Inr (rcObjectDoesntExist, obj, w)
     else if isCdUp obj then Inr (rcFail, obj, w)
     else if asserts B \<and> \<not> qfi_isDir E w location then Inl AssertionFailed
     else let fullNewName =
                location @ ''/'' @ (if newName = [] then p_fullName (m_properties obj) else newName)
          in if qfi_exists E w fullNewName \<and> (isDir obj \<or> qfi_isFile E w fullNewName)
             then Inr (rcTargetAlreadyExists, obj, w)
             else if isFile obj
             then (case os_rename E w (p_fullPath (m_properties obj)) fullNewName of
                     (Some err, w') \<Rightarrow> Inr (rcFail, obj\<lparr>m_lastError := err\<rparr>, w')
                   | (None, w') \<Rightarrow> Inr (rcOk, refreshInfo E obj, w'))
             else if isDir obj
             then (case qdir_rename E w (fullAbsolutePath obj) fullNewName of
                     (ok, w') \<Rightarrow> Inr (if ok then rcOk else rcFail, obj, w'))
             else Inr (rcFail, obj, w))"

definition moveChunk ::
  "'w env \<Rightarrow> build \<Rightarrow> int64_t \<Rightarrow> QString \<Rightarrow> QString \<Rightarrow> CFileSystemObject \<Rightarrow> 'w
    \<Rightarrow> fault + (FileOperationResultCode \<times> CFileSystemObject \<times> 'w)" where
  "moveChunk E B chunkSize destFolder newName obj w = moveAtomically E B destFolder newName obj w"


section \<open>The read-only attribute\<close>

text \<open>
  The two constants of the Windows headers that \<open>makeWritable\<close> uses; no theorem depends
  on their values.
\<close>

definition INVALID_FILE_ATTRIBUTES :: DWORD where
  "INVALID_FILE_ATTRIBUTES = - 1"

definition FILE_ATTRIBUTE_READONLY :: DWORD where
  "FILE_ATTRIBUTE_READONLY = 1"

text \<open>The C++ literal \<^verbatim>\<open>"\\\\?\\"\<close>: backslash, backslash, question mark, backslash.\<close>

definition longPathPrefix :: QString where
  "longPathPrefix = [CHR 0x5C, CHR 0x5C, CHR ''?'', CHR 0x5C]"

text \<open>
  \<open>makeWritable\<close>: the branch for any platform but Windows is \<open>#error "Not implemented"\<close>,
  so there the function does not build, whatever the object.
\<close>

definition makeWritable ::
  "'w env \<Rightarrow> build \<Rightarrow> bool \<Rightarrow> CFileSystemObject \<Rightarrow> 'w \<Rightarrow> fault + (bool \<times> CFileSystemObject \<times> 'w)" where
  "makeWritable E B writeable obj w =
    (case target B of
       Posix \<Rightarrow> Inl NotImplemented
     | Win32 \<Rightarrow>
         if \<not> isFile obj then (if asserts B then Inl AssertionFailed else Inr (False, obj, w))
         else let UNCPath = longPathPrefix @ toNativeSeparators E (fullAbsolutePath obj);
                  attributes = GetFileAttributesW E w UNCPath
              in if attributes = INVALID_FILE_ATTRIBUTES
                 then Inr (False, obj\<lparr>m_lastError := ErrorStringFromLastError E w\<rparr>, w)
                 else (case SetFileAttributesW E w UNCPath
                              (if writeable then attributes AND NOT FILE_ATTRIBUTE_READONLY
                               else attributes OR FILE_ATTRIBUTE_READONLY) of
                         (ok, w') \<Rightarrow>
                           if \<not> ok
                           then Inr (False, obj\<lparr>m_lastError := ErrorStringFromLastError E w'\<rparr>, w')
                           else Inr (True, obj, w')))"

section \<open>Volume identifiers\<close>

definition uint64_max :: uint64_t where
  "uint64_max = - 1"

text \<open>
  \<open>rootFileSystemId\<close> is \<open>const\<close> and writes the mutable members \<open>_rootFileSystemId\<close> and
  \<open>_lastError\<close>: it returns the identifier and the object.
\<close>

definition rootFileSystemId ::
  "'w env \<Rightarrow> build \<Rightarrow> CFileSystemObject \<Rightarrow> 'w \<Rightarrow> uint64_t \<times> CFileSystemObject" where
  "rootFileSystemId E B obj w =
    (let obj' =
       (if m_rootFileSystemId obj = uint64_max
        then (case target B of
                Win32 \<Rightarrow>
                  (let driveNumber = PathGetDriveNumberW E w (p_fullPath (m_properties obj))
                   in if driveNumber \<noteq> - 1 then obj\<lparr>m_rootFileSystemId := scast driveNumber\<rparr>
                      else obj)
              | Posix \<Rightarrow>
                  (case os_stat_dev E w (toUtf8 E (p_fullPath (m_properties obj))) of
                     Inr st_dev \<Rightarrow> obj\<lparr>m_rootFileSystemId := st_dev\<rparr>
                   | Inl err \<Rightarrow> obj\<lparr>m_lastError := err\<rparr>))
        else obj)
     in (m_rootFileSystemId obj', obj'))"

definition isMovableTo ::
  "'w env \<Rightarrow> build \<Rightarrow> CFileSystemObject \<Rightarrow> CFileSystemObject \<Rightarrow> 'w
    \<Rightarrow> bool \<times> CFileSystemObject \<times> CFileSystemObject" where
  "isMovableTo E B obj dest w =
    (case rootFileSystemId E B obj w of
       (fileSystemId, obj') \<Rightarrow>
         (case rootFileSystemId E B dest w of
            (otherFileSystemId, dest') \<Rightarrow>
              (fileSystemId = otherFileSystemId \<and> fileSystemId \<noteq> uint64_max
                 \<and> otherFileSystemId \<noteq> uint64_max,
               obj', dest')))"

section \<open>The path hierarchy\<close>

text \<open>
  The loop of \<open>pathHierarchy\<close>: \<open>path\<close> is the last element pushed, and the next element is
  \<open>QFileInfo(path).path()\<close> as long as that is shorter.
\<close>

function pathHierarchy_loop :: "'w env \<Rightarrow> QString \<Rightarrow> QString list" where
  "pathHierarchy_loop E path =
    (if length (qfi_path E path) < length path
     then qfi_path E path # pathHierarchy_loop E (qfi_path E path)
     else [])"
  by pat_completeness auto
termination
  by (relation "measure (\<lambda>(E, path). length path)") auto

declare pathHierarchy_loop.simps [simp del]

definition pathHierarchy :: "'w env \<Rightarrow> CFileSystemObject \<Rightarrow> QString list" where
  "pathHierarchy E obj = fullAbsolutePath obj # pathHierarchy_loop E (fullAbsolutePath obj)"


section \<open>A small file system\<close>

text \<open>
  One environment to evaluate the operations in: files with their bytes, directories, the
  free space of the disk (a write beyond it is cut short), the Win32 attributes by path, and
  one device number.
\<close>

record simple_world =
  sw_files :: "(QString \<times> QByteArray) list"
  sw_dirs :: "QString list"
  sw_free :: nat
  sw_attrs :: "(QString \<times> DWORD) list"
  sw_dev :: uint64_t

definition sw_is_file :: "simple_world \<Rightarrow> QString \<Rightarrow> bool" where
  "sw_is_file w p = (map_of (sw_files w) p \<noteq> None)"

text \<open>A directory may be named with a slash at its end, as \<open>copyChunk\<close> needs it.\<close>

definition sw_is_dir :: "simple_world \<Rightarrow> QString \<Rightarrow> bool" where
  "sw_is_dir w p =
    ((if 1 < length p \<and> last p = CHR ''/'' then butlast p else p) \<in> set (sw_dirs w))"

definition sw_store :: "QString \<Rightarrow> 'a \<Rightarrow> (QString \<times> 'a) list \<Rightarrow> (QString \<times> 'a) list" where
  "sw_store p v kvs = (p, v) # filter (\<lambda>kv. fst kv \<noteq> p) kvs"

definition sw_bytes :: "QString \<Rightarrow> QByteArray" where
  "sw_bytes p = map (\<lambda>c. of_nat (of_char c)) p"

definition sw_parent :: "QString \<Rightarrow> QString" where
  "sw_parent p =
    (case dropWhile (\<lambda>c. c \<noteq> CHR ''/'') (rev p) of
       [] \<Rightarrow> ''.''
     | _ # r \<Rightarrow> if r = [] then ''/'' else rev r)"

definition sw_name :: "QString \<Rightarrow> QString" where
  "sw_name p = rev (takeWhile (\<lambda>c. c \<noteq> CHR ''/'') (rev p))"

definition sw_moved :: "QString \<Rightarrow> QString \<Rightarrow> QString \<Rightarrow> QString" where
  "sw_moved a b q =
    (if q = a then b
     else if take (Suc (length a)) q = a @ ''/'' then b @ drop (length a) q
     else q)"

definition sw_drive :: "QString \<Rightarrow> 32 word" where
  "sw_drive p =
    (case p of
       c # d # _ \<Rightarrow>
         if d = CHR '':'' \<and> 65 \<le> (of_char c :: nat) \<and> (of_char c :: nat) \<le> 90
         then of_nat (of_char c - 65)
         else if d = CHR '':'' \<and> 97 \<le> (of_char c :: nat) \<and> (of_char c :: nat) \<le> 122
         then of_nat (of_char c - 97)
         else - 1
     | _ \<Rightarrow> - 1)"

definition simple_env :: "simple_world env" where
  "simple_env =
    \<lparr>fasthash64 = (\<lambda>buf len seed. foldl (\<lambda>h b. h * 31 + ucast b) (seed XOR of_nat len) buf),
     toUtf8 = sw_bytes,
     toNativeSeparators = map (\<lambda>c. if c = CHR ''/'' then CHR 0x5C else c),
     qfi_path = sw_parent,
     qfi_exists = (\<lambda>w p. sw_is_file w p \<or> sw_is_dir w p),
     qfi_isFile = sw_is_file,
     qfi_isDir = sw_is_dir,
     qdir_entryList =
       (\<lambda>w p. filter (\<lambda>n. n \<noteq> ''.'' \<and> n \<noteq> ''..'')
                (map sw_name (filter (\<lambda>q. q \<noteq> p \<and> sw_parent q = p) (map fst (sw_files w) @ sw_dirs w)))),
     os_open =
       (\<lambda>w mode p.
          case mode of
            ReadOnly \<Rightarrow> if sw_is_file w p then Inr w else Inl ''No such file or directory''
          | WriteOnly \<Rightarrow>
              if sw_is_dir w p then Inl ''Is a directory''
              else if \<not> sw_is_dir w (sw_parent p) then Inl ''No such file or directory''
              else Inr (w\<lparr>sw_files := sw_store p [] (sw_files w)\<rparr>)),
     os_read =
       (\<lambda>w p pos maxSize.
          case map_of (sw_files w) p of
            None \<Rightarrow> Inl ''No such file or directory''
          | Some bytes \<Rightarrow> Inr (take (nat (sint maxSize)) (drop (unat pos) bytes))),
     os_write =
       (\<lambda>w p pos data.
          case map_of (sw_files w) p of
            None \<Rightarrow> (Some ''No such file or directory'', - 1, w)
          | Some old \<Rightarrow>
              (let k = min (length data) (sw_free w)
               in (if k < length data then Some ''No space left on device'' else None,
                   int k,
                   w\<lparr>sw_files := sw_store p (take (unat pos) old @ take k data) (sw_files w),
                     sw_free := sw_free w - k\<rparr>))),
     os_close = (\<lambda>w p. w),
     os_remove =
       (\<lambda>w p. if sw_is_file w p \<and> \<not> sw_is_dir w p
               then (True, w\<lparr>sw_files := filter (\<lambda>kv. fst kv \<noteq> p) (sw_files w)\<rparr>)
               else (False, w)),
     os_rename =
       (\<lambda>w a b. if sw_is_file w a \<and> \<not> sw_is_file w b \<and> \<not> sw_is_dir w b \<and> sw_is_dir w (sw_parent b)
                 then (None, w\<lparr>sw_files := map (\<lambda>kv. (sw_moved a b (fst kv), snd kv)) (sw_files w)\<rparr>)
                 else (Some ''Destination file exists'', w)),
     qdir_rename =
       (\<lambda>w a b. if sw_is_dir w a \<and> \<not> sw_is_file w b \<and> \<not> sw_is_dir w b \<and> sw_is_dir w (sw_parent b)
                 then (True, w\<lparr>sw_files := map (\<lambda>kv. (sw_moved a b (fst kv), snd kv)) (sw_files w),
                                sw_dirs := map (sw_moved a b) (sw_dirs w)\<rparr>)
                 else (False, w)),
     os_stat_dev =
       (\<lambda>w buf. if buf \<in> set (map sw_bytes (map fst (sw_files w) @ sw_dirs w)) then Inr (sw_dev w)
                 else Inl ''No such file or directory''),
     PathGetDriveNumberW = (\<lambda>w p. sw_drive p),
     GetFileAttributesW =
       (\<lambda>w p. case map_of (sw_attrs w) p of None \<Rightarrow> INVALID_FILE_ATTRIBUTES | Some a \<Rightarrow> a),
     SetFileAttributesW =
       (\<lambda>w p a. if map_of (sw_attrs w) p \<noteq> None
                 then (True, w\<lparr>sw_attrs := sw_store p a (sw_attrs w)\<rparr>)
                 else (False, w)),
     ErrorStringFromLastError = (\<lambda>w. ''The system cannot find the file specified.''),
     noErrorString = ''Unknown error''\<rparr>"

text \<open>The snapshot that \<open>QFileInfo\<close> takes of a path in the small file system.\<close>

definition sw_suffix :: "QString \<Rightarrow> QString" where
  "sw_suffix n = (if CHR ''.'' \<in> set n then rev (takeWhile (\<lambda>c. c \<noteq> CHR ''.'') (rev n)) else [])"

definition sw_completeSuffix :: "QString \<Rightarrow> QString" where
  "sw_completeSuffix n = drop 1 (dropWhile (\<lambda>c. c \<noteq> CHR ''.'') n)"

definition sw_fileInfo :: "simple_world \<Rightarrow> QString \<Rightarrow> QFileInfo" where
  "sw_fileInfo w p =
    \<lparr>fi_exists = (sw_is_file w p \<or> sw_is_dir w p),
     fi_absoluteFilePath = p,
     fi_isFile = sw_is_file w p,
     fi_isDir = sw_is_dir w p,
     fi_suffix = sw_suffix (sw_name p),
     fi_completeBaseName =
       (if CHR ''.'' \<in> set (sw_name p)
        then take (length (sw_name p) - Suc (length (sw_suffix (sw_name p)))) (sw_name p)
        else sw_name p),
     fi_completeSuffix = sw_completeSuffix (sw_name p),
     fi_baseName = takeWhile (\<lambda>c. c \<noteq> CHR ''.'') (sw_name p),
     fi_fileName = sw_name p,
     fi_absolutePath = sw_parent p,
     fi_created_toTime_t = 0,
     fi_lastModified_toTime_t = 0,
     fi_size = (case map_of (sw_files w) p of None \<Rightarrow> 0 | Some bytes \<Rightarrow> of_nat (length bytes))\<rparr>"

text \<open>
  Modelled from the spec: the default member initialisers of \<open>CFileSystemObject\<close> and
  \<open>CFileSystemObjectProperties\<close> (cfilesystemobject.h) are not among the sources. The
  specification gives the maximum as the sentinel of the creation date ("never refreshed")
  and of the volume identifier ("unknown"). It does not give the type of an object that was
  never refreshed: the objects below start as Nonexistent, with empty handles. Only these
  objects use the initial values; no statement about the class depends on them.
\<close>

definition initial_properties :: CFileSystemObjectProperties where
  "initial_properties =
    \<lparr>p_completeBaseName = [], p_extension = [], p_fullName = [], p_parentFolder = [],
     p_fullPath = [], p_type = Nonexistent, p_size = 0, p_creationDate = - 1,
     p_modificationDate = - 1, p_hash = 0, p_exists = False\<rparr>"

text \<open>The constructor: it stores the \<open>QFileInfo\<close> and calls \<open>refreshInfo\<close>.\<close>

definition CFileSystemObject_new :: "'w env \<Rightarrow> QFileInfo \<Rightarrow> CFileSystemObject" where
  "CFileSystemObject_new E fileInfo =
    refreshInfo E
      \<lparr>m_fileInfo = fileInfo, m_properties = initial_properties, m_lastError = [],
       m_rootFileSystemId = uint64_max, m_thisFile = None, m_destFile = None\<rparr>"

text \<open>Two states of the small file system and the objects of some of their paths.\<close>

definition world1 :: simple_world where
  "world1 =
    \<lparr>sw_files = [(''/src/a.txt'', [1, 2, 3]), (''/dst/b.txt'', [9])],
     sw_dirs = [''/'', ''/src'', ''/dst'', ''/src/sub'', ''/src/sub/..''],
     sw_free = 2,
     sw_attrs = [(longPathPrefix @ [CHR 0x5C] @ ''src'' @ [CHR 0x5C] @ ''a.txt'', 33)],
     sw_dev = 7\<rparr>"

definition world2 :: simple_world where
  "world2 = world1\<lparr>sw_free := 100\<rparr>"

definition obj_a :: CFileSystemObject where
  "obj_a = CFileSystemObject_new simple_env (sw_fileInfo world1 ''/src/a.txt'')"

definition obj_b :: CFileSystemObject where
  "obj_b = CFileSystemObject_new simple_env (sw_fileInfo world1 ''/dst/b.txt'')"

definition obj_sub :: CFileSystemObject where
  "obj_sub = CFileSystemObject_new simple_env (sw_fileInfo world1 ''/src/sub'')"

definition obj_missing :: CFileSystemObject where
  "obj_missing = CFileSystemObject_new simple_env (sw_fileInfo world1 ''/src/none.txt'')"

definition obj_cdup :: CFileSystemObject where
  "obj_cdup = CFileSystemObject_new simple_env (sw_fileInfo world1 ''/src/sub/..'')"

definition release_build :: build where
  "release_build = \<lparr>target = Win32, asserts = False\<rparr>"

definition debug_build :: build where
  "debug_build = \<lparr>target = Win32, asserts = True\<rparr>"

definition posix_build :: build where
  "posix_build = \<lparr>target = Posix, asserts = True\<rparr>"

section \<open>Notions used in the statements\<close>

text \<open>
  The source or the destination of a first chunk cannot be opened: the \<open>open(ReadOnly)\<close> of
  the object's path fails, or it succeeds and the \<open>open(WriteOnly)\<close> of the destination
  fails.
\<close>

definition open_fails :: "'w env \<Rightarrow> QString \<Rightarrow> QString \<Rightarrow> CFileSystemObject \<Rightarrow> 'w \<Rightarrow> bool" where
  "open_fails E destFolder newName obj w =
    (case os_open E (reset E (m_destFile obj) (reset E (m_thisFile obj) w)) ReadOnly
            (fullAbsolutePath obj) of
       Inl err \<Rightarrow> True
     | Inr w1 \<Rightarrow>
         isl (os_open E w1 WriteOnly
                (destFolder @ (if newName = [] then p_fullName (m_properties obj) else newName))))"

text \<open>
  What the class assumes of \<open>QFile::remove\<close> and \<open>QFile::close\<close>: a successful \<open>remove\<close>
  removes a file that was there, a failed one leaves the file system as it was, and closing
  a file neither creates nor removes one.
\<close>

definition remove_contract :: "'w env \<Rightarrow> bool" where
  "remove_contract E =
    (\<forall>w p. (fst (os_remove E w p) \<longrightarrow> qfi_exists E w p \<and> \<not> qfi_exists E (snd (os_remove E w p)) p)
         \<and> (\<not> fst (os_remove E w p) \<longrightarrow> snd (os_remove E w p) = w)
         \<and> (\<forall>q. qfi_exists E (os_close E w p) q = qfi_exists E w q))"

text \<open>
  The path that \<open>makeWritable\<close> passes to the Win32 calls, and the attributes it passes to
  \<open>SetFileAttributesW\<close>.
\<close>

definition UNCPath :: "'w env \<Rightarrow> CFileSystemObject \<Rightarrow> QString" where
  "UNCPath E obj = longPathPrefix @ toNativeSeparators E (fullAbsolutePath obj)"

definition toggled :: "bool \<Rightarrow> DWORD \<Rightarrow> DWORD" where
  "toggled writeable attributes =
    (if writeable then attributes AND NOT FILE_ATTRIBUTE_READONLY
     else attributes OR FILE_ATTRIBUTE_READONLY)"

text \<open>States of the small file system and of the object of \<open>/src/a.txt\<close> during a copy.\<close>

definition obj_a_stalled :: CFileSystemObject where
  "obj_a_stalled =
    obj_a\<lparr>m_lastError := ''No space left on device'',
          m_thisFile := Some \<lparr>qf_fileName = ''/src/a.txt'', qf_isOpen = True, qf_pos = 3, qf_error = None\<rparr>,
          m_destFile := Some \<lparr>qf_fileName = ''/dst/a.txt'', qf_isOpen = True, qf_pos = 2,
                               qf_error = Some ''No space left on device''\<rparr>\<rparr>"

definition world1_stalled :: simple_world where
  "world1_stalled =
    world1\<lparr>sw_files := [(''/dst/a.txt'', [1, 2]), (''/src/a.txt'', [1, 2, 3]), (''/dst/b.txt'', [9])],
           sw_free := 0\<rparr>"

definition obj_a_copying :: CFileSystemObject where
  "obj_a_copying =
    obj_a\<lparr>m_thisFile := Some \<lparr>qf_fileName = ''/src/a.txt'', qf_isOpen = True, qf_pos = 3, qf_error = None\<rparr>,
          m_destFile := Some \<lparr>qf_fileName = ''/dst/a.txt'', qf_isOpen = True, qf_pos = 3, qf_error = None\<rparr>\<rparr>"

definition world2_copied :: simple_world where
  "world2_copied =
    world1\<lparr>sw_files := [(''/dst/a.txt'', [1, 2, 3]), (''/src/a.txt'', [1, 2, 3]), (''/dst/b.txt'', [9])],
           sw_free := 97\<rparr>"

definition world2_cancelled :: simple_world where
  "world2_cancelled =
    world1\<lparr>sw_files := [(''/src/a.txt'', [1, 2, 3]), (''/dst/b.txt'', [9])], sw_free := 97\<rparr>"

section \<open>Properties\<close>

subsection \<open>Evaluating the objects of the small file system\<close>

lemma simple_env_fields:
  "fasthash64 simple_env =
       (\<lambda>buf len seed. foldl (\<lambda>h b. h * 31 + ucast b) (seed XOR of_nat len) buf)"
  "toUtf8 simple_env =
       sw_bytes"
  "toNativeSeparators simple_env =
       map (\<lambda>c. if c = CHR ''/'' then CHR 0x5C else c)"
  "qfi_path simple_env =
       sw_parent"
  "qfi_exists simple_env =
       (\<lambda>w p. sw_is_file w p \<or> sw_is_dir w p)"
  "qfi_isFile simple_env =
       sw_is_file"
  "qfi_isDir simple_env =
       sw_is_dir"
  "qdir_entryList simple_env =
       (\<lambda>w p. filter (\<lambda>n. n \<noteq> ''.'' \<and> n \<noteq> ''..'')
                (map sw_name (filter (\<lambda>q. q \<noteq> p \<and> sw_parent q = p) (map fst (sw_files w) @ sw_dirs w))))"
  "os_open simple_env =
       (\<lambda>w mode p.
          case mode of
            ReadOnly \<Rightarrow> if sw_is_file w p then Inr w else Inl ''No such file or directory''
          | WriteOnly \<Rightarrow>
              if sw_is_dir w p then Inl ''Is a directory''
              else if \<not> sw_is_dir w (sw_parent p) then Inl ''No such file or directory''
              else Inr (w\<lparr>sw_files := sw_store p [] (sw_files w)\<rparr>))"
  "os_read simple_env =
       (\<lambda>w p pos maxSize.
          case map_of (sw_files w) p of
            None \<Rightarrow> Inl ''No such file or directory''
          | Some bytes \<Rightarrow> Inr (take (nat (sint maxSize)) (drop (unat pos) bytes)))"
  "os_write simple_env =
       (\<lambda>w p pos data.
          case map_of (sw_files w) p of
            None \<Rightarrow> (Some ''No such file or directory'', - 1, w)
          | Some old \<Rightarrow>
              (let k = min (length data) (sw_free w)
               in (if k < length data then Some ''No space left on device'' else None,
                   int k,
                   w\<lparr>sw_files := sw_store p (take (unat pos) old @ take k data) (sw_files w),
                     sw_free := sw_free w - k\<rparr>)))"
  "os_close simple_env =
       (\<lambda>w p. w)"
  "os_remove simple_env =
       (\<lambda>w p. if sw_is_file w p \<and> \<not> sw_is_dir w p
               then (True, w\<lparr>sw_files := filter (\<lambda>kv. fst kv \<noteq> p) (sw_files w)\<rparr>)
               else (False, w))"
  "os_rename simple_env =
       (\<lambda>w a b. if sw_is_file w a \<and> \<not> sw_is_file w b \<and> \<not> sw_is_dir w b \<and> sw_is_dir w (sw_parent b)
                 then (None, w\<lparr>sw_files := map (\<lambda>kv. (sw_moved a b (fst kv), snd kv)) (sw_files w)\<rparr>)
                 else (Some ''Destination file exists'', w))"
  "qdir_rename simple_env =
       (\<lambda>w a b. if sw_is_dir w a \<and> \<not> sw_is_file w b \<and> \<not> sw_is_dir w b \<and> sw_is_dir w (sw_parent b)
                 then (True, w\<lparr>sw_files := map (\<lambda>kv. (sw_moved a b (fst kv), snd kv)) (sw_files w),
                                sw_dirs := map (sw_moved a b) (sw_dirs w)\<rparr>)
                 else (False, w))"
  "os_stat_dev simple_env =
       (\<lambda>w buf. if buf \<in> set (map sw_bytes (map fst (sw_files w) @ sw_dirs w)) then Inr (sw_dev w)
                 else Inl ''No such file or directory'')"
  "PathGetDriveNumberW simple_env =
       (\<lambda>w p. sw_drive p)"
  "GetFileAttributesW simple_env =
       (\<lambda>w p. case map_of (sw_attrs w) p of None \<Rightarrow> INVALID_FILE_ATTRIBUTES | Some a \<Rightarrow> a)"
  "SetFileAttributesW simple_env =
       (\<lambda>w p a. if map_of (sw_attrs w) p \<noteq> None
                 then (True, w\<lparr>sw_attrs := sw_store p a (sw_attrs w)\<rparr>)
                 else (False, w))"
  "ErrorStringFromLastError simple_env =
       (\<lambda>w. ''The system cannot find the file specified.'')"
  "noErrorString simple_env =
       ''Unknown error''"
  by (simp_all add: simple_env_def)

lemma obj_a_eq:
  "obj_a =
    \<lparr>m_fileInfo = sw_fileInfo world1 ''/src/a.txt'',
     m_properties =
       \<lparr>p_completeBaseName = ''a'', p_extension = ''txt'', p_fullName = ''a.txt'',
        p_parentFolder = ''/src'', p_fullPath = ''/src/a.txt'', p_type = File, p_size = 3,
        p_creationDate = 0, p_modificationDate = 0, p_hash = p_hash (m_properties obj_a), p_exists = True\<rparr>,
     m_lastError = [], m_rootFileSystemId = uint64_max, m_thisFile = None, m_destFile = None\<rparr>"
  by (simp add: obj_a_def CFileSystemObject_new_def refreshInfo_def Let_def sw_fileInfo_def
      world1_def sw_is_file_def sw_is_dir_def initial_properties_def sw_name_def sw_parent_def
      sw_suffix_def sw_completeSuffix_def)


lemma obj_b_eq:
  "obj_b =
    \<lparr>m_fileInfo = sw_fileInfo world1 ''/dst/b.txt'',
     m_properties =
       \<lparr>p_completeBaseName = ''b'', p_extension = ''txt'', p_fullName = ''b.txt'',
        p_parentFolder = ''/dst'', p_fullPath = ''/dst/b.txt'', p_type = File, p_size = 1,
        p_creationDate = 0, p_modificationDate = 0, p_hash = p_hash (m_properties obj_b), p_exists = True\<rparr>,
     m_lastError = [], m_rootFileSystemId = uint64_max, m_thisFile = None, m_destFile = None\<rparr>"
  by (simp add: obj_b_def CFileSystemObject_new_def refreshInfo_def Let_def sw_fileInfo_def
      world1_def sw_is_file_def sw_is_dir_def initial_properties_def sw_name_def sw_parent_def
      sw_suffix_def sw_completeSuffix_def)

lemma obj_missing_eq:
  "obj_missing =
    \<lparr>m_fileInfo = sw_fileInfo world1 ''/src/none.txt'',
     m_properties =
       \<lparr>p_completeBaseName = [], p_extension = [], p_fullName = ''none.txt'',
        p_parentFolder = ''/src'', p_fullPath = ''/src/none.txt'', p_type = Nonexistent, p_size = 0,
        p_creationDate = - 1, p_modificationDate = - 1, p_hash = p_hash (m_properties obj_missing), p_exists = False\<rparr>,
     m_lastError = [], m_rootFileSystemId = uint64_max, m_thisFile = None, m_destFile = None\<rparr>"
  by (simp add: obj_missing_def CFileSystemObject_new_def refreshInfo_def Let_def sw_fileInfo_def
      world1_def sw_is_file_def sw_is_dir_def initial_properties_def sw_name_def sw_parent_def
      sw_suffix_def sw_completeSuffix_def)

lemma obj_a_type: "p_type (m_properties obj_a) = File"
  by (subst obj_a_eq) simp

lemma obj_missing_type: "p_type (m_properties obj_missing) = Nonexistent"
  by (subst obj_missing_eq) simp

lemma obj_a_path: "fullAbsolutePath obj_a = ''/src/a.txt''"
  by (subst obj_a_eq) (simp add: fullAbsolutePath_def)

lemma obj_cdup_eq:
  "obj_cdup =
    \<lparr>m_fileInfo = sw_fileInfo world1 ''/src/sub/..'',
     m_properties =
       \<lparr>p_completeBaseName = ''..'', p_extension = [], p_fullName = ''..'',
        p_parentFolder = ''/src/sub'', p_fullPath = ''/src/sub/..'', p_type = Directory, p_size = 0,
        p_creationDate = 0, p_modificationDate = 0, p_hash = p_hash (m_properties obj_cdup), p_exists = True\<rparr>,
     m_lastError = [], m_rootFileSystemId = uint64_max, m_thisFile = None, m_destFile = None\<rparr>"
  by (simp add: obj_cdup_def CFileSystemObject_new_def refreshInfo_def Let_def sw_fileInfo_def
      world1_def sw_is_file_def sw_is_dir_def initial_properties_def sw_name_def sw_parent_def
      sw_suffix_def sw_completeSuffix_def)

lemma obj_sub_eq:
  "obj_sub =
    \<lparr>m_fileInfo = sw_fileInfo world1 ''/src/sub'',
     m_properties =
       \<lparr>p_completeBaseName = ''sub'', p_extension = [], p_fullName = ''sub'',
        p_parentFolder = ''/src'', p_fullPath = ''/src/sub'', p_type = Directory, p_size = 0,
        p_creationDate = 0, p_modificationDate = 0, p_hash = p_hash (m_properties obj_sub), p_exists = True\<rparr>,
     m_lastError = [], m_rootFileSystemId = uint64_max, m_thisFile = None, m_destFile = None\<rparr>"
  by (simp add: obj_sub_def CFileSystemObject_new_def refreshInfo_def Let_def sw_fileInfo_def
      world1_def sw_is_file_def sw_is_dir_def initial_properties_def sw_name_def sw_parent_def
      sw_suffix_def sw_completeSuffix_def)

lemma obj_flags:
  "\<not> exists obj_missing" "exists obj_cdup" "isCdUp obj_cdup"
  "exists obj_a" "\<not> isCdUp obj_a" "\<not> isDir obj_a" "p_fullName (m_properties obj_a) = ''a.txt''"
  "exists obj_sub" "\<not> isCdUp obj_sub" "isDir obj_sub" "p_fullName (m_properties obj_sub) = ''sub''"
  by (subst obj_missing_eq obj_cdup_eq obj_a_eq obj_sub_eq, simp add: exists_def isCdUp_def isDir_def)+

lemma world1_facts:
  "qfi_isDir simple_env world1 ''/dst''" "qfi_isDir simple_env world1 ''/src''"
  "qfi_exists simple_env world1 ''/dst/b.txt''" "qfi_isFile simple_env world1 ''/dst/b.txt''"
  "qfi_exists simple_env world1 ''/src/sub''"
  by (simp_all add: simple_env_fields world1_def sw_is_dir_def sw_is_file_def)

lemma world1_qfi: "qfi_isDir simple_env world1 ''/dst/''"
  by (simp add: simple_env_fields world1_def sw_is_dir_def)

lemma obj_a_idle: "copyOperationInProgress B obj_a = Inr False" "isFile obj_a"
  by (subst obj_a_eq, simp add: copyOperationInProgress_def isFile_def)+

lemma obj_a_fields:
  "fullAbsolutePath obj_a = ''/src/a.txt''" "p_fullName (m_properties obj_a) = ''a.txt''"
  "m_thisFile obj_a = None" "m_destFile obj_a = None" "m_lastError obj_a = []"
  by (subst obj_a_eq, simp add: fullAbsolutePath_def)+

lemma world1_fields:
  "sw_files world1 = [(''/src/a.txt'', [1, 2, 3]), (''/dst/b.txt'', [9])]"
  "sw_dirs world1 = [''/'', ''/src'', ''/dst'', ''/src/sub'', ''/src/sub/..'']"
  "sw_free world1 = 2"
  by (simp_all add: world1_def)

lemma world1_src_dir: "qfi_isDir simple_env world1 ''/src/''"
  by (simp add: simple_env_fields world1_fields sw_is_dir_def)

lemma obj_a_released: "obj_a\<lparr>m_thisFile := None, m_destFile := None\<rparr> = obj_a"
proof -
  have "obj_a\<lparr>m_thisFile := m_thisFile obj_a, m_destFile := m_destFile obj_a\<rparr> = obj_a"
    by simp
  then show ?thesis by (simp only: obj_a_fields)
qed

lemma obj_a_copying_fields:
  "m_thisFile obj_a_copying = Some \<lparr>qf_fileName = ''/src/a.txt'', qf_isOpen = True, qf_pos = 3, qf_error = None\<rparr>"
  "m_destFile obj_a_copying = Some \<lparr>qf_fileName = ''/dst/a.txt'', qf_isOpen = True, qf_pos = 3, qf_error = None\<rparr>"
  "isFile obj_a_copying"
  "copyOperationInProgress B obj_a_copying = Inr True"
  "obj_a_copying\<lparr>m_thisFile := None, m_destFile := None\<rparr> = obj_a"
  using obj_a_idle(2) obj_a_released
  by (simp_all add: obj_a_copying_def copyOperationInProgress_def isFile_def)

lemma world2_copied_fields:
  "sw_files world2_copied = [(''/dst/a.txt'', [1, 2, 3]), (''/src/a.txt'', [1, 2, 3]), (''/dst/b.txt'', [9])]"
  "sw_dirs world2_copied = [''/'', ''/src'', ''/dst'', ''/src/sub'', ''/src/sub/..'']"
  "sw_free world2_copied = 97"
  by (simp_all add: world2_copied_def world1_def)

lemma world2_fields:
  "sw_files world2 = [(''/src/a.txt'', [1, 2, 3]), (''/dst/b.txt'', [9])]"
  "sw_dirs world2 = [''/'', ''/src'', ''/dst'', ''/src/sub'', ''/src/sub/..'']"
  "sw_free world2 = 100"
  by (simp_all add: world2_def world1_def)

lemma world1_attrs:
  "sw_attrs world1 = [(longPathPrefix @ [CHR 0x5C] @ ''src'' @ [CHR 0x5C] @ ''a.txt'', 33)]"
  by (simp add: world1_def)

lemma obj_types: "isFile obj_b" "\<not> isFile obj_sub"
  by (subst obj_b_eq obj_sub_eq, simp add: isFile_def)+

subsection \<open>Queries and the cached size\<close>

text \<open>
  C10. For every object and every size \<open>n\<close>, \<open>setDirSize n\<close> changes the cached size and
  nothing else: the hash, the full path, the parent folder, the names, the extension, the
  type, the existence flag and the two dates keep their values, and so do the other members
  of the object. The function takes no environment and no state of the file system: it makes
  no file system call.
\<close>

theorem setDirSize_changes_only_size:
  "p_size (m_properties (setDirSize n obj)) = n
   \<and> p_hash (m_properties (setDirSize n obj)) = p_hash (m_properties obj)
   \<and> p_fullPath (m_properties (setDirSize n obj)) = p_fullPath (m_properties obj)
   \<and> p_parentFolder (m_properties (setDirSize n obj)) = p_parentFolder (m_properties obj)
   \<and> p_fullName (m_properties (setDirSize n obj)) = p_fullName (m_properties obj)
   \<and> p_completeBaseName (m_properties (setDirSize n obj)) = p_completeBaseName (m_properties obj)
   \<and> p_extension (m_properties (setDirSize n obj)) = p_extension (m_properties obj)
   \<and> p_type (m_properties (setDirSize n obj)) = p_type (m_properties obj)
   \<and> p_exists (m_properties (setDirSize n obj)) = p_exists (m_properties obj)
   \<and> p_creationDate (m_properties (setDirSize n obj)) = p_creationDate (m_properties obj)
   \<and> p_modificationDate (m_properties (setDirSize n obj)) = p_modificationDate (m_properties obj)
   \<and> m_fileInfo (setDirSize n obj) = m_fileInfo obj
   \<and> m_lastError (setDirSize n obj) = m_lastError obj
   \<and> m_rootFileSystemId (setDirSize n obj) = m_rootFileSystemId obj
   \<and> m_thisFile (setDirSize n obj) = m_thisFile obj
   \<and> m_destFile (setDirSize n obj) = m_destFile obj"
  by (simp add: setDirSize_def)

text \<open>
  C9. For every object whose type is not Directory (a file, an Other object or a
  nonexistent one), \<open>isEmptyDir\<close> returns false, whatever the listing of its path would be.
\<close>

theorem isEmptyDir_non_directory:
  "p_type (m_properties obj) \<noteq> Directory \<Longrightarrow> isEmptyDir E obj w = False"
  by (simp add: isEmptyDir_def isDir_def)

theorem isEmptyDir_non_directory_witness:
  "p_type (m_properties obj_a) \<noteq> Directory \<and> isEmptyDir simple_env obj_a world1 = False
   \<and> p_type (m_properties obj_missing) \<noteq> Directory
   \<and> isEmptyDir simple_env obj_missing world1 = False"
  using isEmptyDir_non_directory [of obj_a simple_env world1]
        isEmptyDir_non_directory [of obj_missing simple_env world1]
  by (simp add: obj_a_type obj_missing_type)

subsection \<open>Moving\<close>

text \<open>
  C8. For every chunk size, destination folder and new name, \<open>moveChunk\<close> returns what
  \<open>moveAtomically\<close> returns for the same destination and name, with the same object and the
  same file system afterwards; the chunk size is ignored.
\<close>

theorem moveChunk_is_moveAtomically:
  "moveChunk E B chunkSize destFolder newName obj w = moveAtomically E B destFolder newName obj w
   \<and> moveChunk E B chunkSize destFolder newName obj w
       = moveChunk E B chunkSize' destFolder newName obj w"
  by (simp add: moveChunk_def)


subsection \<open>Identity\<close>

lemma refreshInfo_fullPath:
  "p_fullPath (m_properties (refreshInfo E obj)) = fi_absoluteFilePath (m_fileInfo obj)"
  by (simp add: refreshInfo_def Let_def)

lemma refreshInfo_hash:
  "p_hash (m_properties (refreshInfo E obj)) =
     fasthash64 E (toUtf8 E (fi_absoluteFilePath (m_fileInfo obj)))
       (length (toUtf8 E (fi_absoluteFilePath (m_fileInfo obj)))) 0"
  by (simp add: refreshInfo_def Let_def)

text \<open>
  C4. For every pair of objects \<open>a\<close> and \<open>b\<close>, \<open>a == b\<close> holds if and only if their hashes
  are equal. The hash is assigned by \<open>refreshInfo\<close>: it is \<open>fasthash64\<close>, with seed 0, of the
  UTF-8 bytes of the full path that the same refresh stores, so two refreshed objects with
  the same full path have the same hash; \<open>setDirSize\<close> leaves it as it is.
\<close>

theorem operator_eq_iff_hash:
  "operator_eq a b = (hash a = hash b)
   \<and> hash (refreshInfo E a) =
       fasthash64 E (toUtf8 E (fullAbsolutePath (refreshInfo E a)))
         (length (toUtf8 E (fullAbsolutePath (refreshInfo E a)))) 0
   \<and> (fullAbsolutePath (refreshInfo E a) = fullAbsolutePath (refreshInfo E b)
        \<longrightarrow> hash (refreshInfo E a) = hash (refreshInfo E b))
   \<and> hash (setDirSize n a) = hash a"
  by (simp add: operator_eq_def hash_def fullAbsolutePath_def refreshInfo_fullPath
      refreshInfo_hash setDirSize_def)

theorem operator_eq_iff_hash_witness:
  "fullAbsolutePath (refreshInfo simple_env obj_a)
     = fullAbsolutePath (refreshInfo simple_env (setDirSize 5 obj_a))
   \<and> hash (refreshInfo simple_env obj_a) = hash (refreshInfo simple_env (setDirSize 5 obj_a))
   \<and> operator_eq (refreshInfo simple_env obj_a) (refreshInfo simple_env (setDirSize 5 obj_a))"
proof -
  let ?a = obj_a and ?b = "setDirSize 5 obj_a"
  have p: "fullAbsolutePath (refreshInfo simple_env ?a) = fullAbsolutePath (refreshInfo simple_env ?b)"
    by (simp add: fullAbsolutePath_def refreshInfo_fullPath setDirSize_def)
  from operator_eq_iff_hash [where a = ?a and b = ?b and E = simple_env] p
  have h: "hash (refreshInfo simple_env ?a) = hash (refreshInfo simple_env ?b)"
    by blast
  from operator_eq_iff_hash [where a = "refreshInfo simple_env ?a" and b = "refreshInfo simple_env ?b"] h
  have "operator_eq (refreshInfo simple_env ?a) (refreshInfo simple_env ?b)"
    by blast
  with p h show ?thesis by blast
qed

subsection \<open>Volumes\<close>

text \<open>
  C5. For every pair of objects \<open>a\<close> and \<open>b\<close>, \<open>isMovableTo\<close> holds if and only if both
  volume identifiers, as \<open>rootFileSystemId\<close> returns them, differ from the maximum of
  \<open>uint64_t\<close> and are equal; so it is false whenever one of them is that maximum.
\<close>

theorem isMovableTo_iff:
  "fst (isMovableTo E B a b w) =
     (fst (rootFileSystemId E B a w) \<noteq> uint64_max
      \<and> fst (rootFileSystemId E B b w) \<noteq> uint64_max
      \<and> fst (rootFileSystemId E B a w) = fst (rootFileSystemId E B b w))
   \<and> (fst (rootFileSystemId E B a w) = uint64_max \<or> fst (rootFileSystemId E B b w) = uint64_max
        \<longrightarrow> \<not> fst (isMovableTo E B a b w))
   \<and> uint64_max = 18446744073709551615"
proof -
  have "uint64_max = 18446744073709551615"
    by (simp add: uint64_max_def)
  moreover have "fst (isMovableTo E B a b w) =
     (fst (rootFileSystemId E B a w) \<noteq> uint64_max
      \<and> fst (rootFileSystemId E B b w) \<noteq> uint64_max
      \<and> fst (rootFileSystemId E B a w) = fst (rootFileSystemId E B b w))"
    by (auto simp: isMovableTo_def split: prod.splits)
  ultimately show ?thesis by blast
qed

lemma obj_a_id: "fst (rootFileSystemId simple_env posix_build obj_a world1) = 7"
  by (subst obj_a_eq)
     (simp add: rootFileSystemId_def Let_def posix_build_def simple_env_fields world1_def sw_bytes_def)

lemma obj_b_id: "fst (rootFileSystemId simple_env posix_build obj_b world1) = 7"
  by (subst obj_b_eq)
     (simp add: rootFileSystemId_def Let_def posix_build_def simple_env_fields world1_def sw_bytes_def)

lemma obj_missing_id: "fst (rootFileSystemId simple_env posix_build obj_missing world1) = uint64_max"
  by (subst obj_missing_eq)
     (simp add: rootFileSystemId_def Let_def posix_build_def simple_env_fields world1_def sw_bytes_def)

theorem isMovableTo_iff_witness:
  "fst (isMovableTo simple_env posix_build obj_a obj_b world1)
   \<and> fst (rootFileSystemId simple_env posix_build obj_missing world1) = uint64_max
   \<and> \<not> fst (isMovableTo simple_env posix_build obj_a obj_missing world1)"
  using isMovableTo_iff [of simple_env posix_build obj_a obj_b world1]
        isMovableTo_iff [of simple_env posix_build obj_a obj_missing world1]
  by (simp add: obj_a_id obj_b_id obj_missing_id uint64_max_def)

subsection \<open>The path hierarchy\<close>

lemma loop_shorter:
  "x \<in> set (pathHierarchy_loop E p) \<Longrightarrow> length x < length p"
proof (induction E p rule: pathHierarchy_loop.induct)
  case (1 E path)
  show ?case
  proof (cases "length (qfi_path E path) < length path")
    case True
    from "1.prems" True have "x = qfi_path E path \<or> x \<in> set (pathHierarchy_loop E (qfi_path E path))"
      by (subst (asm) pathHierarchy_loop.simps) simp
    with "1.IH" [OF True] True show ?thesis by auto
  next
    case False
    with "1.prems" show ?thesis by (subst (asm) pathHierarchy_loop.simps) simp
  qed
qed

lemma loop_unfold:
  "length (qfi_path E p) < length p \<Longrightarrow>
     pathHierarchy_loop E p = qfi_path E p # pathHierarchy_loop E (qfi_path E p)"
  "\<not> length (qfi_path E p) < length p \<Longrightarrow> pathHierarchy_loop E p = []"
  by (subst pathHierarchy_loop.simps, simp)+

lemma loop_sorted:
  "sorted_wrt (\<lambda>a b. length b < length a) (pathHierarchy_loop E p)"
proof (induction E p rule: pathHierarchy_loop.induct)
  case (1 E path)
  show ?case
  proof (cases "length (qfi_path E path) < length path")
    case True
    with "1.IH" [OF True] show ?thesis
      by (auto simp: loop_unfold(1) dest: loop_shorter)
  next
    case False
    then show ?thesis by (simp add: loop_unfold(2))
  qed
qed

lemma loop_parents:
  "pathHierarchy_loop E p = map (qfi_path E) (butlast (p # pathHierarchy_loop E p))"
proof (induction E p rule: pathHierarchy_loop.induct)
  case (1 E path)
  show ?case
  proof (cases "length (qfi_path E path) < length path")
    case True
    show ?thesis using "1.IH" [OF True] by (simp add: loop_unfold(1) [OF True])
  next
    case False
    then show ?thesis by (simp add: loop_unfold(2))
  qed
qed

lemma loop_stops:
  "\<not> length (qfi_path E (last (p # pathHierarchy_loop E p))) < length (last (p # pathHierarchy_loop E p))"
proof (induction E p rule: pathHierarchy_loop.induct)
  case (1 E path)
  show ?case
  proof (cases "length (qfi_path E path) < length path")
    case True
    show ?thesis using "1.IH" [OF True] by (simp add: loop_unfold(1) [OF True])
  next
    case False
    then show ?thesis by (simp add: loop_unfold(2))
  qed
qed

lemma loop_length:
  "length (pathHierarchy_loop E p) \<le> length p"
proof (induction E p rule: pathHierarchy_loop.induct)
  case (1 E path)
  show ?case
  proof (cases "length (qfi_path E path) < length path")
    case True
    show ?thesis using "1.IH" [OF True] True by (simp add: loop_unfold(1) [OF True])
  next
    case False
    then show ?thesis by (simp add: loop_unfold(2))
  qed
qed

text \<open>
  C6. For every path, \<open>pathHierarchy\<close> terminates (the loop is a total function, and runs at
  most once for each character of the path); the first element is the path itself; the
  lengths of the elements strictly decrease; each element after the first is
  \<open>QFileInfo(previous).path()\<close>; and the last element is where the loop stops: its parent is
  no shorter than itself.
\<close>

theorem pathHierarchy_descends:
  "hd (pathHierarchy E obj) = fullAbsolutePath obj
   \<and> sorted_wrt (\<lambda>a b. length b < length a) (pathHierarchy E obj)
   \<and> tl (pathHierarchy E obj) = map (qfi_path E) (butlast (pathHierarchy E obj))
   \<and> \<not> length (qfi_path E (last (pathHierarchy E obj))) < length (last (pathHierarchy E obj))
   \<and> length (pathHierarchy E obj) \<le> Suc (length (fullAbsolutePath obj))"
proof -
  let ?p = "fullAbsolutePath obj"
  have "sorted_wrt (\<lambda>a b. length b < length a) (?p # pathHierarchy_loop E ?p)"
    using loop_sorted [of E ?p] loop_shorter [of _ E ?p] by simp
  moreover have "pathHierarchy_loop E ?p = map (qfi_path E) (butlast (?p # pathHierarchy_loop E ?p))"
    by (rule loop_parents)
  moreover note loop_stops [of E ?p] loop_length [of E ?p]
  ultimately show ?thesis unfolding pathHierarchy_def by simp
qed

lemma obj_a_hierarchy: "pathHierarchy simple_env obj_a = [''/src/a.txt'', ''/src'', ''/'']"
  unfolding pathHierarchy_def obj_a_path
  by (simp add: pathHierarchy_loop.simps simple_env_fields sw_parent_def)

theorem pathHierarchy_descends_witness:
  "pathHierarchy simple_env obj_a = [''/src/a.txt'', ''/src'', ''/'']
   \<and> hd (pathHierarchy simple_env obj_a) = fullAbsolutePath obj_a
   \<and> sorted_wrt (\<lambda>a b. length b < length a) (pathHierarchy simple_env obj_a)
   \<and> qfi_path simple_env (last (pathHierarchy simple_env obj_a)) = ''/''"
  using pathHierarchy_descends [of simple_env obj_a]
  by (simp add: obj_a_hierarchy obj_a_path simple_env_fields sw_parent_def)


subsection \<open>The early returns of moveAtomically\<close>

text \<open>
  C2. \<open>moveAtomically\<close> makes its checks in the order of the claim, and the first that applies
  decides. An object that does not exist gives \<open>rcObjectDoesntExist\<close>. An existing object that
  is the \<open>..\<close> entry gives \<open>rcFail\<close>. For an existing object that is not \<open>..\<close>, when the
  destination path \<open>location/name\<close> exists and the object is a directory or the destination is a
  file, the result is \<open>rcTargetAlreadyExists\<close>; this check comes after the assertion that
  \<open>location\<close> is a directory, which a build with assertions must pass. In each of the three
  cases the object and the file system are returned as they were.
\<close>

theorem moveAtomically_early_returns:
  "(\<not> exists obj \<longrightarrow>
      moveAtomically E B location newName obj w = Inr (rcObjectDoesntExist, obj, w))
   \<and> (exists obj \<and> isCdUp obj \<longrightarrow>
      moveAtomically E B location newName obj w = Inr (rcFail, obj, w))
   \<and> (exists obj \<and> \<not> isCdUp obj \<and> (asserts B \<longrightarrow> qfi_isDir E w location)
       \<and> qfi_exists E w (location @ ''/'' @ (if newName = [] then p_fullName (m_properties obj) else newName))
       \<and> (isDir obj \<or> qfi_isFile E w (location @ ''/'' @ (if newName = [] then p_fullName (m_properties obj) else newName)))
       \<longrightarrow> moveAtomically E B location newName obj w = Inr (rcTargetAlreadyExists, obj, w))"
  by (simp add: moveAtomically_def Let_def)

theorem moveAtomically_early_returns_witness:
  "\<not> exists obj_missing
   \<and> moveAtomically simple_env debug_build ''/dst'' [] obj_missing world1
       = Inr (rcObjectDoesntExist, obj_missing, world1)
   \<and> exists obj_cdup \<and> isCdUp obj_cdup
   \<and> moveAtomically simple_env debug_build ''/dst'' [] obj_cdup world1 = Inr (rcFail, obj_cdup, world1)
   \<and> exists obj_a \<and> \<not> isCdUp obj_a \<and> qfi_isFile simple_env world1 ''/dst/b.txt''
   \<and> moveAtomically simple_env debug_build ''/dst'' ''b.txt'' obj_a world1
       = Inr (rcTargetAlreadyExists, obj_a, world1)
   \<and> exists obj_sub \<and> \<not> isCdUp obj_sub \<and> isDir obj_sub \<and> qfi_exists simple_env world1 ''/src/sub''
   \<and> moveAtomically simple_env debug_build ''/src'' [] obj_sub world1
       = Inr (rcTargetAlreadyExists, obj_sub, world1)"
  using moveAtomically_early_returns [of obj_missing simple_env debug_build "''/dst''" "[]" world1]
        moveAtomically_early_returns [of obj_cdup simple_env debug_build "''/dst''" "[]" world1]
        moveAtomically_early_returns [of obj_a simple_env debug_build "''/dst''" "''b.txt''" world1]
        moveAtomically_early_returns [of obj_sub simple_env debug_build "''/src''" "[]" world1]
  by (simp add: obj_flags world1_facts)

subsection \<open>Failures of copyChunk\<close>

lemma copyChunk_open_fails:
  "open_fails E destFolder newName obj w \<Longrightarrow>
     copyChunk_open E destFolder newName obj w = (ok, obj', w') \<Longrightarrow>
     \<not> ok \<and> m_thisFile obj' = None \<and> m_destFile obj' = None"
  by (auto simp: open_fails_def copyChunk_open_def QFile_open_def new_QFile_def Let_def
           split: sum.splits prod.splits bool.splits)

text \<open>
  C1, as amended. For every call of \<open>copyChunk\<close> with no copy in progress in which the source
  or the destination cannot be opened: if the call returns, it returns \<open>rcFail\<close>, both handles
  are released and \<open>copyOperationInProgress\<close> is false afterwards.
\<close>

theorem copyChunk_open_failure_releases:
  assumes "copyChunk E B chunkSize destFolder newName obj w = Inr (rc, obj', w')"
    and "copyOperationInProgress B obj = Inr False"
    and "open_fails E destFolder newName obj w"
  shows "rc = rcFail \<and> m_thisFile obj' = None \<and> m_destFile obj' = None
         \<and> copyOperationInProgress B obj' = Inr False"
proof -
  obtain ok obj1 w1 where o: "copyChunk_open E destFolder newName obj w = (ok, obj1, w1)"
    by (cases "copyChunk_open E destFolder newName obj w") auto
  from copyChunk_open_fails [OF assms(3) o]
  have f: "\<not> ok" "m_thisFile obj1 = None" "m_destFile obj1 = None" by simp_all
  from assms(1) assms(2) o f(1) have "rc = rcFail" "obj' = obj1"
    by (auto simp: copyChunk_def split: if_splits)
  with f show ?thesis by (simp add: copyOperationInProgress_def)
qed

lemma obj_a_dest_is_dir:
  "copyChunk simple_env debug_build 8 ''/src/'' ''sub'' obj_a world1
     = Inr (rcFail, obj_a\<lparr>m_lastError := ''Is a directory''\<rparr>, world1)"
  by (simp add: copyChunk_def obj_a_idle obj_a_fields world1_src_dir copyChunk_open_def Let_def
      reset_def new_QFile_def QFile_open_def QFile_close_def errorString_def simple_env_fields
      world1_fields sw_is_file_def sw_is_dir_def)

lemma obj_a_dest_open_fails: "open_fails simple_env ''/src/'' ''sub'' obj_a world1"
  by (simp add: open_fails_def reset_def obj_a_fields simple_env_fields world1_fields
      sw_is_file_def sw_is_dir_def)

theorem copyChunk_open_failure_releases_witness:
  "copyChunk simple_env debug_build 8 ''/src/'' ''sub'' obj_a world1
     = Inr (rcFail, obj_a\<lparr>m_lastError := ''Is a directory''\<rparr>, world1)
   \<and> copyOperationInProgress debug_build obj_a = Inr False
   \<and> open_fails simple_env ''/src/'' ''sub'' obj_a world1
   \<and> m_thisFile (obj_a\<lparr>m_lastError := ''Is a directory''\<rparr>) = None
   \<and> m_destFile (obj_a\<lparr>m_lastError := ''Is a directory''\<rparr>) = None
   \<and> copyOperationInProgress debug_build (obj_a\<lparr>m_lastError := ''Is a directory''\<rparr>) = Inr False"
  using copyChunk_open_failure_releases [OF obj_a_dest_is_dir obj_a_idle(1) obj_a_dest_open_fails]
        obj_a_dest_is_dir obj_a_idle(1) obj_a_dest_open_fails
  by simp

text \<open>
  In every environment, a write that returns another count than the bytes read makes the
  transfer return \<open>rcFail\<close> with both \<open>QFile\<close> objects still held.
\<close>

lemma transfer_partial_write:
  assumes "m_thisFile obj = Some thisFile" "m_destFile obj = Some destFile"
    and "qf_isOpen destFile = qf_isOpen thisFile"
    and "QFile_read E chunkSize thisFile w = (data, thisFile')" "data \<noteq> []"
    and "QFile_write E destFile data w = (n, destFile', w')" "n \<noteq> int (length data)"
  shows "copyChunk_transfer E B chunkSize obj w =
           Inr (rcFail,
                obj\<lparr>m_lastError := (if qf_error thisFile' \<noteq> None then errorString E thisFile'
                                      else errorString E destFile'),
                    m_thisFile := Some thisFile', m_destFile := Some destFile'\<rparr>,
                w')"
  using assms by (simp add: copyChunk_transfer_def)

lemma obj_a_open:
  "copyChunk_open simple_env ''/dst/'' [] obj_a world1 =
     (True,
      obj_a\<lparr>m_thisFile := Some \<lparr>qf_fileName = ''/src/a.txt'', qf_isOpen = True, qf_pos = 0, qf_error = None\<rparr>,
            m_destFile := Some \<lparr>qf_fileName = ''/dst/a.txt'', qf_isOpen = True, qf_pos = 0, qf_error = None\<rparr>\<rparr>,
      world1\<lparr>sw_files := [(''/dst/a.txt'', []), (''/src/a.txt'', [1, 2, 3]), (''/dst/b.txt'', [9])]\<rparr>)"
  by (simp add: copyChunk_open_def Let_def reset_def new_QFile_def QFile_open_def obj_a_fields
      simple_env_fields world1_fields sw_is_file_def sw_is_dir_def sw_parent_def sw_store_def)

lemma obj_a_transfer:
  "copyChunk_transfer simple_env debug_build 8
      (obj_a\<lparr>m_thisFile := Some \<lparr>qf_fileName = ''/src/a.txt'', qf_isOpen = True, qf_pos = 0, qf_error = None\<rparr>,
            m_destFile := Some \<lparr>qf_fileName = ''/dst/a.txt'', qf_isOpen = True, qf_pos = 0, qf_error = None\<rparr>\<rparr>)
      (world1\<lparr>sw_files := [(''/dst/a.txt'', []), (''/src/a.txt'', [1, 2, 3]), (''/dst/b.txt'', [9])]\<rparr>)
    = Inr (rcFail, obj_a_stalled, world1_stalled)"
  by (simp add: copyChunk_transfer_def QFile_read_def QFile_write_def errorString_def Let_def
      obj_a_stalled_def world1_stalled_def simple_env_fields world1_fields sw_store_def debug_build_def)

text \<open>
  C1, as stated, fails for a partial write. The disk of \<open>world1\<close> has two bytes free and
  \<open>/src/a.txt\<close> has three: the first chunk opens both files, reads three bytes and writes two.
  \<open>copyChunk\<close> returns \<open>rcFail\<close>, keeps both handles, and \<open>copyOperationInProgress\<close> is true.
\<close>

theorem copyChunk_partial_write_counterexample:
  "copyChunk simple_env debug_build 8 ''/dst/'' [] obj_a world1 = Inr (rcFail, obj_a_stalled, world1_stalled)
   \<and> m_thisFile obj_a_stalled \<noteq> None \<and> m_destFile obj_a_stalled \<noteq> None
   \<and> copyOperationInProgress debug_build obj_a_stalled = Inr True"
proof -
  have "copyChunk simple_env debug_build 8 ''/dst/'' [] obj_a world1 = Inr (rcFail, obj_a_stalled, world1_stalled)"
    by (simp add: copyChunk_def obj_a_idle obj_a_fields world1_qfi obj_a_open obj_a_transfer)
  moreover have "m_thisFile obj_a_stalled \<noteq> None \<and> m_destFile obj_a_stalled \<noteq> None
     \<and> copyOperationInProgress debug_build obj_a_stalled = Inr True"
    by (simp add: obj_a_stalled_def copyOperationInProgress_def)
  ultimately show ?thesis by blast
qed

subsection \<open>Cancelling a copy\<close>

lemma cancelCopy_idle:
  "copyOperationInProgress B obj = Inr False \<Longrightarrow> cancelCopy E B obj w = Inr (rcOk, obj, w)"
  by (simp add: cancelCopy_def)

lemma in_progress_handles:
  "copyOperationInProgress B obj = Inr True \<Longrightarrow>
     \<exists>tf df. m_thisFile obj = Some tf \<and> m_destFile obj = Some df \<and> qf_isOpen tf \<and> qf_isOpen df"
  by (auto simp: copyOperationInProgress_def split: if_splits option.splits)

lemma cancelCopy_running:
  assumes "m_thisFile obj = Some tf" "m_destFile obj = Some df" "qf_isOpen tf" "qf_isOpen df"
  shows "cancelCopy E B obj w =
           Inr (if fst (os_remove E (os_close E (os_close E w (qf_fileName tf)) (qf_fileName df)) (qf_fileName df))
                then rcOk else rcFail,
                obj\<lparr>m_thisFile := None, m_destFile := None\<rparr>,
                snd (os_remove E (os_close E (os_close E w (qf_fileName tf)) (qf_fileName df)) (qf_fileName df)))"
  using assms
  by (simp add: cancelCopy_def copyOperationInProgress_def QFile_close_def QFile_remove_def reset_def
      split: prod.splits)

text \<open>
  C3, as amended. With no copy in progress \<open>cancelCopy\<close> returns \<open>rcOk\<close> and changes nothing.
  With a copy in progress it returns \<open>rcOk\<close> or \<open>rcFail\<close> and releases both handles; it
  returns \<open>rcOk\<close> if and only if the destination file was removed (it was on disk at the call
  and is not on return), and then no destination file remains on disk. The file system is
  assumed to keep the contract of \<open>remove\<close> and \<open>close\<close>.
\<close>

theorem cancelCopy_removes_destination:
  assumes "remove_contract E"
  shows "(copyOperationInProgress B obj = Inr False \<longrightarrow> cancelCopy E B obj w = Inr (rcOk, obj, w))
   \<and> (copyOperationInProgress B obj = Inr True \<and> m_destFile obj = Some destFile \<longrightarrow>
        (\<exists>rc w'. cancelCopy E B obj w = Inr (rc, obj\<lparr>m_thisFile := None, m_destFile := None\<rparr>, w')
           \<and> (rc = rcOk \<or> rc = rcFail)
           \<and> (rc = rcOk) = (qfi_exists E w (qf_fileName destFile) \<and> \<not> qfi_exists E w' (qf_fileName destFile))
           \<and> (rc = rcOk \<longrightarrow> \<not> qfi_exists E w' (qf_fileName destFile))))"
proof (intro conjI impI)
  assume "copyOperationInProgress B obj = Inr False"
  then show "cancelCopy E B obj w = Inr (rcOk, obj, w)" by (rule cancelCopy_idle)
next
  assume a: "copyOperationInProgress B obj = Inr True \<and> m_destFile obj = Some destFile"
  then obtain tf where h: "m_thisFile obj = Some tf" "m_destFile obj = Some destFile"
      "qf_isOpen tf" "qf_isOpen destFile"
    using in_progress_handles [of B obj] by auto
  let ?n = "qf_fileName destFile"
  let ?w2 = "os_close E (os_close E w (qf_fileName tf)) ?n"
  let ?ok = "fst (os_remove E ?w2 ?n)"
  let ?w' = "snd (os_remove E ?w2 ?n)"
  have ex2: "qfi_exists E ?w2 ?n = qfi_exists E w ?n"
    using assms by (simp add: remove_contract_def)
  have c1: "?ok \<Longrightarrow> qfi_exists E ?w2 ?n \<and> \<not> qfi_exists E ?w' ?n"
    using assms unfolding remove_contract_def by blast
  have c2: "\<not> ?ok \<Longrightarrow> ?w' = ?w2"
    using assms unfolding remove_contract_def by blast
  have iff: "?ok = (qfi_exists E w ?n \<and> \<not> qfi_exists E ?w' ?n)"
  proof (cases ?ok)
    case True
    with c1 ex2 show ?thesis by simp
  next
    case False
    with c2 ex2 show ?thesis by auto
  qed
  have r: "cancelCopy E B obj w =
      Inr (if ?ok then rcOk else rcFail, obj\<lparr>m_thisFile := None, m_destFile := None\<rparr>, ?w')"
    by (rule cancelCopy_running [OF h])
  show "\<exists>rc w'. cancelCopy E B obj w = Inr (rc, obj\<lparr>m_thisFile := None, m_destFile := None\<rparr>, w')
           \<and> (rc = rcOk \<or> rc = rcFail)
           \<and> (rc = rcOk) = (qfi_exists E w ?n \<and> \<not> qfi_exists E w' ?n)
           \<and> (rc = rcOk \<longrightarrow> \<not> qfi_exists E w' ?n)"
  proof (intro exI conjI)
    show "cancelCopy E B obj w =
      Inr (if ?ok then rcOk else rcFail, obj\<lparr>m_thisFile := None, m_destFile := None\<rparr>, ?w')"
      by (rule r)
    show "(if ?ok then rcOk else rcFail) = rcOk \<or> (if ?ok then rcOk else rcFail) = rcFail" by simp
    show "((if ?ok then rcOk else rcFail) = rcOk) = (qfi_exists E w ?n \<and> \<not> qfi_exists E ?w' ?n)"
      using iff by simp
    show "(if ?ok then rcOk else rcFail) = rcOk \<longrightarrow> \<not> qfi_exists E ?w' ?n"
      using c1 by simp
  qed
qed

lemma simple_env_remove_contract: "remove_contract simple_env"
  by (auto simp: remove_contract_def simple_env_fields sw_is_file_def sw_is_dir_def map_of_eq_None_iff
      image_iff)

lemma cancel_a_copying:
  "cancelCopy simple_env debug_build obj_a_copying world2_copied = Inr (rcOk, obj_a, world2_cancelled)"
  by (simp add: cancelCopy_running [OF obj_a_copying_fields(1) obj_a_copying_fields(2)]
      obj_a_copying_fields(5) simple_env_fields sw_is_file_def sw_is_dir_def world2_copied_fields)
     (simp add: world2_copied_def world2_cancelled_def)

lemma dst_a_exists:
  "qfi_exists simple_env world2_copied ''/dst/a.txt''"
  "\<not> qfi_exists simple_env world2_cancelled ''/dst/a.txt''"
  by (simp_all add: simple_env_fields sw_is_file_def sw_is_dir_def world2_copied_fields
      world2_cancelled_def world1_fields)

theorem cancelCopy_removes_destination_witness:
  "remove_contract simple_env
   \<and> copyOperationInProgress debug_build obj_a_copying = Inr True
   \<and> m_destFile obj_a_copying
       = Some \<lparr>qf_fileName = ''/dst/a.txt'', qf_isOpen = True, qf_pos = 3, qf_error = None\<rparr>
   \<and> cancelCopy simple_env debug_build obj_a_copying world2_copied = Inr (rcOk, obj_a, world2_cancelled)
   \<and> qfi_exists simple_env world2_copied ''/dst/a.txt''
   \<and> \<not> qfi_exists simple_env world2_cancelled ''/dst/a.txt''
   \<and> copyOperationInProgress debug_build obj_a = Inr False
   \<and> cancelCopy simple_env debug_build obj_a world1 = Inr (rcOk, obj_a, world1)"
  using cancelCopy_removes_destination [OF simple_env_remove_contract, where B = debug_build
          and obj = obj_a_copying and w = world2_copied
          and destFile = "\<lparr>qf_fileName = ''/dst/a.txt'', qf_isOpen = True, qf_pos = 3, qf_error = None\<rparr>"]
        cancelCopy_removes_destination [OF simple_env_remove_contract, where B = debug_build
          and obj = obj_a and w = world1]
  by (simp add: simple_env_remove_contract obj_a_copying_fields cancel_a_copying dst_a_exists obj_a_idle)

lemma copy_a_first:
  "copyChunk simple_env debug_build 8 ''/dst/'' [] obj_a world2 = Inr (rcOk, obj_a_copying, world2_copied)"
  by (simp add: copyChunk_def obj_a_idle obj_a_fields copyChunk_open_def copyChunk_transfer_def
      Let_def reset_def new_QFile_def QFile_open_def QFile_read_def QFile_write_def
      simple_env_fields world2_fields sw_is_file_def sw_is_dir_def sw_parent_def sw_store_def
      debug_build_def obj_a_copying_def)
     (simp add: world2_def world2_copied_def)

lemma copy_a_second:
  "copyChunk simple_env debug_build 8 ''/dst/'' [] obj_a_copying world2_copied = Inr (rcOk, obj_a, world2_copied)"
  by (simp add: copyChunk_def obj_a_copying_fields copyChunk_transfer_def
      Let_def reset_def QFile_read_def QFile_close_def
      simple_env_fields world2_copied_fields sw_is_dir_def)

text \<open>
  C3, as stated, fails for an object with no copy in progress. The first chunk copies the
  three bytes of \<open>/src/a.txt\<close> to \<open>/dst/a.txt\<close>, the second reads the end of the file and
  releases the handles; \<open>cancelCopy\<close> then returns \<open>rcOk\<close>, removes nothing, and the
  destination file is on disk.
\<close>

theorem cancelCopy_idle_counterexample:
  "copyChunk simple_env debug_build 8 ''/dst/'' [] obj_a world2 = Inr (rcOk, obj_a_copying, world2_copied)
   \<and> copyChunk simple_env debug_build 8 ''/dst/'' [] obj_a_copying world2_copied
       = Inr (rcOk, obj_a, world2_copied)
   \<and> cancelCopy simple_env debug_build obj_a world2_copied = Inr (rcOk, obj_a, world2_copied)
   \<and> qfi_exists simple_env world2_copied ''/dst/a.txt''"
  by (simp add: copy_a_first copy_a_second cancelCopy_idle obj_a_idle dst_a_exists)

subsection \<open>The read-only attribute\<close>

lemma toggled_bits:
  "toggled writeable a AND FILE_ATTRIBUTE_READONLY = (if writeable then 0 else FILE_ATTRIBUTE_READONLY)"
  "toggled writeable a AND NOT FILE_ATTRIBUTE_READONLY = a AND NOT FILE_ATTRIBUTE_READONLY"
  by (simp_all add: toggled_def bit_eq_iff bit_simps) auto

text \<open>
  C7, as amended, for a Windows build. For an object that is not a file, \<open>makeWritable\<close> fails
  its assertion in a build with assertions and returns false otherwise, touching nothing. For
  a file it reads the attributes of the native path under the prefix \<^verbatim>\<open>\\?\\<close>; if they
  cannot be read it returns false with the last OS error kept on the object; otherwise it
  calls \<open>SetFileAttributesW\<close> once on the same path, with the read-only bit cleared
  (\<open>writeable\<close>) or set and every other bit as read, and returns true on success and false,
  with the last OS error kept, on failure.
\<close>

theorem makeWritable_win32:
  assumes "target B = Win32"
  shows "(\<not> isFile obj \<longrightarrow>
            makeWritable E B writeable obj w
              = (if asserts B then Inl AssertionFailed else Inr (False, obj, w)))
   \<and> (isFile obj \<and> GetFileAttributesW E w (UNCPath E obj) = INVALID_FILE_ATTRIBUTES \<longrightarrow>
        makeWritable E B writeable obj w
          = Inr (False, obj\<lparr>m_lastError := ErrorStringFromLastError E w\<rparr>, w))
   \<and> (isFile obj \<and> GetFileAttributesW E w (UNCPath E obj) \<noteq> INVALID_FILE_ATTRIBUTES \<longrightarrow>
        makeWritable E B writeable obj w
          = (case SetFileAttributesW E w (UNCPath E obj)
                    (toggled writeable (GetFileAttributesW E w (UNCPath E obj))) of
               (ok, w') \<Rightarrow>
                 Inr (ok, if ok then obj else obj\<lparr>m_lastError := ErrorStringFromLastError E w'\<rparr>, w')))
   \<and> toggled writeable a AND FILE_ATTRIBUTE_READONLY
        = (if writeable then 0 else FILE_ATTRIBUTE_READONLY)
   \<and> toggled writeable a AND NOT FILE_ATTRIBUTE_READONLY = a AND NOT FILE_ATTRIBUTE_READONLY"
proof -
  have "\<not> isFile obj \<longrightarrow>
            makeWritable E B writeable obj w
              = (if asserts B then Inl AssertionFailed else Inr (False, obj, w))"
    using assms by (simp add: makeWritable_def)
  moreover have "isFile obj \<and> GetFileAttributesW E w (UNCPath E obj) = INVALID_FILE_ATTRIBUTES \<longrightarrow>
        makeWritable E B writeable obj w
          = Inr (False, obj\<lparr>m_lastError := ErrorStringFromLastError E w\<rparr>, w)"
    using assms by (simp add: makeWritable_def UNCPath_def Let_def)
  moreover have "isFile obj \<and> GetFileAttributesW E w (UNCPath E obj) \<noteq> INVALID_FILE_ATTRIBUTES \<longrightarrow>
        makeWritable E B writeable obj w
          = (case SetFileAttributesW E w (UNCPath E obj)
                    (toggled writeable (GetFileAttributesW E w (UNCPath E obj))) of
               (ok, w') \<Rightarrow>
                 Inr (ok, if ok then obj else obj\<lparr>m_lastError := ErrorStringFromLastError E w'\<rparr>, w'))"
    using assms by (simp add: makeWritable_def UNCPath_def toggled_def Let_def split: prod.splits)
  moreover note toggled_bits [of writeable a]
  ultimately show ?thesis by blast
qed

lemma UNCPath_a: "UNCPath simple_env obj_a = longPathPrefix @ [CHR 0x5C] @ ''src'' @ [CHR 0x5C] @ ''a.txt''"
  by (simp add: UNCPath_def obj_a_fields simple_env_fields)

lemma get_attrs_a: "GetFileAttributesW simple_env world1 (UNCPath simple_env obj_a) = 33"
  by (simp add: UNCPath_a simple_env_fields world1_attrs)

lemma set_attrs_a:
  "SetFileAttributesW simple_env world1 (UNCPath simple_env obj_a) a
     = (True, world1\<lparr>sw_attrs := [(UNCPath simple_env obj_a, a)]\<rparr>)"
  by (simp add: UNCPath_a simple_env_fields world1_attrs sw_store_def)

lemma get_attrs_b:
  "GetFileAttributesW simple_env world1 (UNCPath simple_env obj_b) = INVALID_FILE_ATTRIBUTES"
  by (subst obj_b_eq)
     (simp add: UNCPath_def fullAbsolutePath_def simple_env_fields world1_attrs longPathPrefix_def)

theorem makeWritable_win32_witness:
  "target release_build = Win32 \<and> target debug_build = Win32
   \<and> \<not> isFile obj_sub
   \<and> makeWritable simple_env release_build True obj_sub world1 = Inr (False, obj_sub, world1)
   \<and> makeWritable simple_env debug_build True obj_sub world1 = Inl AssertionFailed
   \<and> isFile obj_b
   \<and> GetFileAttributesW simple_env world1 (UNCPath simple_env obj_b) = INVALID_FILE_ATTRIBUTES
   \<and> makeWritable simple_env release_build True obj_b world1
       = Inr (False, obj_b\<lparr>m_lastError := ''The system cannot find the file specified.''\<rparr>, world1)
   \<and> isFile obj_a
   \<and> GetFileAttributesW simple_env world1 (UNCPath simple_env obj_a) = 33
   \<and> makeWritable simple_env release_build True obj_a world1
       = Inr (True, obj_a, world1\<lparr>sw_attrs := [(UNCPath simple_env obj_a, 32)]\<rparr>)
   \<and> makeWritable simple_env release_build False obj_a world1
       = Inr (True, obj_a, world1\<lparr>sw_attrs := [(UNCPath simple_env obj_a, 33)]\<rparr>)"
proof -
  have t: "target release_build = Win32" "target debug_build = Win32"
    "\<not> asserts release_build" "asserts debug_build"
    by (simp_all add: release_build_def debug_build_def)
  have v: "toggled True 33 = 32" "toggled False 33 = 33" "(33 :: DWORD) \<noteq> INVALID_FILE_ATTRIBUTES"
    by (simp_all add: toggled_def FILE_ATTRIBUTE_READONLY_def INVALID_FILE_ATTRIBUTES_def)
  have e: "ErrorStringFromLastError simple_env world1 = ''The system cannot find the file specified.''"
    by (simp add: simple_env_fields)
  have s1: "makeWritable simple_env release_build True obj_sub world1 = Inr (False, obj_sub, world1)"
    using makeWritable_win32 [OF t(1), of obj_sub simple_env True world1] by (simp add: obj_types t)
  have s2: "makeWritable simple_env debug_build True obj_sub world1 = Inl AssertionFailed"
    using makeWritable_win32 [OF t(2), of obj_sub simple_env True world1] by (simp add: obj_types t)
  have s3: "makeWritable simple_env release_build True obj_b world1
       = Inr (False, obj_b\<lparr>m_lastError := ''The system cannot find the file specified.''\<rparr>, world1)"
    using makeWritable_win32 [OF t(1), of obj_b simple_env True world1]
    by (simp add: obj_types get_attrs_b e)
  have s4: "makeWritable simple_env release_build True obj_a world1
       = Inr (True, obj_a, world1\<lparr>sw_attrs := [(UNCPath simple_env obj_a, 32)]\<rparr>)"
    using makeWritable_win32 [OF t(1), of obj_a simple_env True world1]
    by (simp add: obj_a_idle get_attrs_a set_attrs_a v)
  have s5: "makeWritable simple_env release_build False obj_a world1
       = Inr (True, obj_a, world1\<lparr>sw_attrs := [(UNCPath simple_env obj_a, 33)]\<rparr>)"
    using makeWritable_win32 [OF t(1), of obj_a simple_env False world1]
    by (simp add: obj_a_idle get_attrs_a set_attrs_a v)
  show ?thesis
    using t(1,2) obj_types obj_a_idle(2) get_attrs_a get_attrs_b s1 s2 s3 s4 s5 by blast
qed

text \<open>
  C7, as stated, fails on every platform but Windows: there the body of \<open>makeWritable\<close> is
  \<open>#error "Not implemented"\<close>, and nothing calls \<open>chmod\<close>.
\<close>

theorem makeWritable_posix_counterexample:
  "isFile obj_a \<and> target posix_build = Posix
   \<and> makeWritable simple_env posix_build True obj_a world1 = Inl NotImplemented"
  by (simp add: obj_a_idle makeWritable_def posix_build_def)

end
